theory Spec2Isabelle
  imports Complex_Main "HOL-Library.Sublist"
begin

section \<open>Floating-point values of the catalog\<close>

text \<open>
  The catalog columns are NumPy float64 arrays. A value is either a finite number, one of
  the two infinities, or NaN (which is also how pandas stores a missing cell). A finite
  value is represented by the real number it denotes: rounding of finite results is not
  part of this model, the special values and the comparisons are. The sign of a finite
  float64 sum is the sign of the exact sum, so the comparisons of the filter are exact.
  What depends on rounding, such as whether two computed logarithms of different numbers
  differ, is stated on the exact result rounded to binary64 (\<open>fl_round\<close> below).
\<close>

datatype float64 = Fin real | PInf | NInf | NaN

fun fl_neg :: "float64 \<Rightarrow> float64" where
  "fl_neg (Fin a) = Fin (- a)"
| "fl_neg PInf = NInf"
| "fl_neg NInf = PInf"
| "fl_neg NaN = NaN"

fun fl_add :: "float64 \<Rightarrow> float64 \<Rightarrow> float64" where
  "fl_add (Fin a) (Fin b) = Fin (a + b)"
| "fl_add NaN y = NaN"
| "fl_add x NaN = NaN"
| "fl_add PInf NInf = NaN"
| "fl_add NInf PInf = NaN"
| "fl_add PInf y = PInf"
| "fl_add NInf y = NInf"
| "fl_add x PInf = PInf"
| "fl_add x NInf = NInf"

definition fl_sub :: "float64 \<Rightarrow> float64 \<Rightarrow> float64" where
  "fl_sub x y = fl_add x (fl_neg y)"

fun fl_mul :: "float64 \<Rightarrow> float64 \<Rightarrow> float64" where
  "fl_mul (Fin a) (Fin b) = Fin (a * b)"
| "fl_mul NaN y = NaN"
| "fl_mul x NaN = NaN"
| "fl_mul (Fin a) PInf = (if a = 0 then NaN else if 0 < a then PInf else NInf)"
| "fl_mul (Fin a) NInf = (if a = 0 then NaN else if 0 < a then NInf else PInf)"
| "fl_mul PInf (Fin b) = (if b = 0 then NaN else if 0 < b then PInf else NInf)"
| "fl_mul NInf (Fin b) = (if b = 0 then NaN else if 0 < b then NInf else PInf)"
| "fl_mul PInf PInf = PInf"
| "fl_mul NInf NInf = PInf"
| "fl_mul PInf NInf = NInf"
| "fl_mul NInf PInf = NInf"

text \<open>\<open>x < y\<close> on float64: every comparison with NaN is false.\<close>

fun fl_less :: "float64 \<Rightarrow> float64 \<Rightarrow> bool" where
  "fl_less (Fin a) (Fin b) = (a < b)"
| "fl_less NaN y = False"
| "fl_less x NaN = False"
| "fl_less x NInf = False"
| "fl_less PInf y = False"
| "fl_less NInf y = True"
| "fl_less x PInf = True"

fun fl_abs :: "float64 \<Rightarrow> float64" where
  "fl_abs (Fin a) = Fin \<bar>a\<bar>"
| "fl_abs PInf = PInf"
| "fl_abs NInf = PInf"
| "fl_abs NaN = NaN"

text \<open>\<open>np.isfinite\<close>.\<close>

fun isfinite :: "float64 \<Rightarrow> bool" where
  "isfinite (Fin a) = True"
| "isfinite x = False"

text \<open>
  \<open>np.log10\<close>: the logarithm of a positive number, minus infinity at zero, NaN below
  zero (NumPy warns and carries on, it does not raise).
\<close>

fun fl_log10 :: "float64 \<Rightarrow> float64" where
  "fl_log10 (Fin a) = (if 0 < a then Fin (log 10 a) else if a = 0 then NInf else NaN)"
| "fl_log10 PInf = PInf"
| "fl_log10 NInf = NaN"
| "fl_log10 NaN = NaN"

section \<open>The catalog and the data filter\<close>

text \<open>
  One row of the downloaded table. The six named columns are the ones the notebook reads;
  the record is extensible, the extension standing for the catalog's other columns.
\<close>

record planet_row =
  pl_rade :: float64
  pl_radeerr1 :: float64
  pl_radeerr2 :: float64
  pl_masse :: float64
  pl_masseerr1 :: float64
  pl_masseerr2 :: float64

text \<open>A column of the frame (\<open>data.pl_rade\<close>, \<open>data[column]\<close>), and the elementwise
  operations on columns that the filter uses.\<close>

definition col :: "('r \<Rightarrow> 'a) \<Rightarrow> 'r list \<Rightarrow> 'a list" where
  "col f data = map f data"

definition series_add :: "float64 list \<Rightarrow> float64 list \<Rightarrow> float64 list" where
  "series_add xs ys = map2 fl_add xs ys"

definition series_sub :: "float64 list \<Rightarrow> float64 list \<Rightarrow> float64 list" where
  "series_sub xs ys = map2 fl_sub xs ys"

definition series_and :: "bool list \<Rightarrow> bool list \<Rightarrow> bool list" where
  "series_and ps qs = map2 (\<and>) ps qs"

definition scalar_lt_series :: "float64 \<Rightarrow> float64 list \<Rightarrow> bool list" where
  "scalar_lt_series c xs = map (\<lambda>x. fl_less c x) xs"

definition series_lt_scalar :: "float64 list \<Rightarrow> float64 \<Rightarrow> bool list" where
  "series_lt_scalar xs c = map (\<lambda>x. fl_less x c) xs"

definition series_gt_scalar :: "float64 list \<Rightarrow> float64 \<Rightarrow> bool list" where
  "series_gt_scalar xs c = map (\<lambda>x. fl_less c x) xs"

definition series_isfinite :: "float64 list \<Rightarrow> bool list" where
  "series_isfinite xs = map isfinite xs"

definition series_abs :: "float64 list \<Rightarrow> float64 list" where
  "series_abs xs = map fl_abs xs"

definition series_log10 :: "float64 list \<Rightarrow> float64 list" where
  "series_log10 xs = map fl_log10 xs"

definition scalar_mul_series :: "float64 \<Rightarrow> float64 list \<Rightarrow> float64 list" where
  "scalar_mul_series c xs = map (\<lambda>x. fl_mul c x) xs"

text \<open>The six columns the \<open>for\<close> loop of the filter runs over, in its order.\<close>

definition columns :: "('a planet_row_scheme \<Rightarrow> float64) list" where
  "columns = [pl_rade, pl_radeerr1, pl_radeerr2, pl_masse, pl_masseerr1, pl_masseerr2]"

text \<open>
  The boolean mask \<open>selected\<close>:
  \<^verbatim>\<open>
  selected = (1 < data.pl_rade) & (data.pl_rade < 4)
  selected &= data.pl_masse + data.pl_masseerr2 > 0
  selected &= data.pl_rade + data.pl_radeerr2 > 0
  for column in [...]:
      selected &= np.isfinite(data[column]) & (np.abs(data[column]) > 0)
  \<close>
\<close>

definition selected :: "'a planet_row_scheme list \<Rightarrow> bool list" where
  "selected data =
    (let s0 = series_and (scalar_lt_series (Fin 1) (col pl_rade data))
                         (series_lt_scalar (col pl_rade data) (Fin 4));
         s1 = series_and s0
                (series_gt_scalar (series_add (col pl_masse data) (col pl_masseerr2 data)) (Fin 0));
         s2 = series_and s1
                (series_gt_scalar (series_add (col pl_rade data) (col pl_radeerr2 data)) (Fin 0))
     in fold (\<lambda>column s. series_and s
                 (series_and (series_isfinite (col column data))
                             (series_gt_scalar (series_abs (col column data)) (Fin 0))))
          columns s2)"

text \<open>Boolean-mask indexing \<open>data[selected]\<close>: the rows whose mask entry is true.\<close>

definition mask_index :: "'r list \<Rightarrow> bool list \<Rightarrow> 'r list" where
  "mask_index data bs = map fst (filter snd (zip data bs))"

text \<open>\<open>data = pd.DataFrame(data[selected])\<close>.\<close>

definition select_rows :: "'a planet_row_scheme list \<Rightarrow> 'a planet_row_scheme list" where
  "select_rows data = mask_index data (selected data)"

subsection \<open>The retention rule in the words of the specification\<close>

text \<open>
  A row is retained when all six fields are finite and nonzero, the radius lies strictly
  between 1 and 4, and mass and radius plus their lower uncertainties are strictly
  positive (as real numbers).
\<close>

fun real_of :: "float64 \<Rightarrow> real option" where
  "real_of (Fin a) = Some a"
| "real_of x = None"

definition retained_spec :: "'a planet_row_scheme \<Rightarrow> bool" where
  "retained_spec row =
    (case (real_of (pl_rade row), real_of (pl_radeerr1 row), real_of (pl_radeerr2 row),
           real_of (pl_masse row), real_of (pl_masseerr1 row), real_of (pl_masseerr2 row)) of
       (Some r, Some ru, Some rl, Some m, Some mu, Some ml) \<Rightarrow>
          1 < r \<and> r < 4 \<and> 0 < m + ml \<and> 0 < r + rl
          \<and> r \<noteq> 0 \<and> ru \<noteq> 0 \<and> rl \<noteq> 0 \<and> m \<noteq> 0 \<and> mu \<noteq> 0 \<and> ml \<noteq> 0
     | _ \<Rightarrow> False)"

section \<open>The log-transform\<close>

text \<open>
  \<^verbatim>\<open>
  log_radius = np.log10(np.array(data.pl_rade))
  log_radius_err = 0.5 * np.array(np.log10(data.pl_rade+data.pl_radeerr1)
                                  - np.log10(data.pl_rade+data.pl_radeerr2))
  log_mass = np.log10(np.array(data.pl_masse))
  log_mass_err = 0.5 * np.array(np.log10(data.pl_masse+data.pl_masseerr1)
                                - np.log10(data.pl_masse+data.pl_masseerr2))
  \<close>
  Here \<open>data\<close> is the filtered frame.
\<close>

definition log_radius :: "'a planet_row_scheme list \<Rightarrow> float64 list" where
  "log_radius data = series_log10 (col pl_rade data)"

definition log_radius_err :: "'a planet_row_scheme list \<Rightarrow> float64 list" where
  "log_radius_err data =
     scalar_mul_series (Fin (1/2))
       (series_sub (series_log10 (series_add (col pl_rade data) (col pl_radeerr1 data)))
                   (series_log10 (series_add (col pl_rade data) (col pl_radeerr2 data))))"

definition log_mass :: "'a planet_row_scheme list \<Rightarrow> float64 list" where
  "log_mass data = series_log10 (col pl_masse data)"

definition log_mass_err :: "'a planet_row_scheme list \<Rightarrow> float64 list" where
  "log_mass_err data =
     scalar_mul_series (Fin (1/2))
       (series_sub (series_log10 (series_add (col pl_masse data) (col pl_masseerr1 data)))
                   (series_log10 (series_add (col pl_masse data) (col pl_masseerr2 data))))"

text \<open>The row-by-row reading of the mask expression, in the order the code conjoins it.\<close>

definition selected_row :: "'a planet_row_scheme \<Rightarrow> bool" where
  "selected_row row =
    ((((fl_less (Fin 1) (pl_rade row) \<and> fl_less (pl_rade row) (Fin 4))
       \<and> fl_less (Fin 0) (fl_add (pl_masse row) (pl_masseerr2 row)))
       \<and> fl_less (Fin 0) (fl_add (pl_rade row) (pl_radeerr2 row)))
     \<and> list_all (\<lambda>column. isfinite (column row) \<and> fl_less (Fin 0) (fl_abs (column row)))
          columns)"

subsection \<open>Example rows\<close>

text \<open>The row of the specification's scenario for the log-radius error, with a mass of
  5 (+1, -1) Earth masses.\<close>

definition scenario_row :: planet_row where
  "scenario_row = \<lparr>pl_rade = Fin 2, pl_radeerr1 = Fin (2/10), pl_radeerr2 = Fin (- (2/10)),
                   pl_masse = Fin 5, pl_masseerr1 = Fin 1, pl_masseerr2 = Fin (- 1)\<rparr>"

text \<open>A row whose mass is -1 and whose lower mass uncertainty column holds +2.\<close>

definition negative_mass_row :: planet_row where
  "negative_mass_row = \<lparr>pl_rade = Fin 2, pl_radeerr1 = Fin (2/10), pl_radeerr2 = Fin (- (2/10)),
                        pl_masse = Fin (- 1), pl_masseerr1 = Fin 3, pl_masseerr2 = Fin 2\<rparr>"

text \<open>A row whose upper mass uncertainty column holds -6, below minus the mass.\<close>

definition negative_upper_row :: planet_row where
  "negative_upper_row = \<lparr>pl_rade = Fin 2, pl_radeerr1 = Fin (2/10), pl_radeerr2 = Fin (- (2/10)),
                         pl_masse = Fin 5, pl_masseerr1 = Fin (- 6), pl_masseerr2 = Fin (- 1)\<rparr>"

section \<open>The logarithm as a binary64 number\<close>









section \<open>The probabilistic model block\<close>

text \<open>
  \<^verbatim>\<open>
  with pm.Model() as model:
      A = pm.Uniform("A", lower=-5, upper=5)
      # YOUR CODE GOES HERE...   (priors of B and logS)
      # YOUR CODE GOES HERE...   (likelihood)
      trace = pm.sample(draws=2000, tune=2000, target_accept=0.9)
  \<close>
  A PyMC3 model is the list of the random variables declared inside its \<open>with\<close> block:
  the free ones (priors) and the observed ones (likelihood terms, each with its data).
  \<open>pm.Uniform\<close> is the only distribution constructor the source calls.
\<close>

datatype dist = Uniform real real

record pm_model =
  free_RVs :: "(string \<times> dist) list"
  observed_RVs :: "(string \<times> dist \<times> real list) list"

definition pm_Model :: pm_model where
  "pm_Model = \<lparr>free_RVs = [], observed_RVs = []\<rparr>"

text \<open>Declaring a free variable registers it with the model of the enclosing block.\<close>

definition pm_Uniform :: "string \<Rightarrow> real \<Rightarrow> real \<Rightarrow> pm_model \<Rightarrow> pm_model" where
  "pm_Uniform name lower upper m = m\<lparr>free_RVs := free_RVs m @ [(name, Uniform lower upper)]\<rparr>"

definition model :: pm_model where
  "model = pm_Uniform ''A'' (- 5) 5 pm_Model"

section \<open>Posterior samples and the predictive band\<close>

datatype py_error =
  NameError | KeyError | TypeError | ValueError | AssertionError | IndexError

text \<open>
  The sampler's result: the names of the sampled variables and the draws (all chains
  concatenated, as \<open>trace["A"]\<close> returns them), each draw giving a value to every
  variable. The values are finite floats, represented by reals.
\<close>

record multitrace =
  varnames :: "string list"
  draws :: "(string \<Rightarrow> real) list"

text \<open>\<open>trace[name]\<close>: the array of the draws of one variable; KeyError for an unknown name.\<close>

definition trace_get :: "multitrace \<Rightarrow> string \<Rightarrow> py_error + real list" where
  "trace_get t name =
     (if name \<in> set (varnames t) then Inr (map (\<lambda>p. p name) (draws t)) else Inl KeyError)"

text \<open>\<open>np.linspace(start, stop, num)\<close>.\<close>

definition linspace :: "real \<Rightarrow> real \<Rightarrow> nat \<Rightarrow> real list" where
  "linspace start stop num =
     map (\<lambda>i. start + real i * ((stop - start) / real (num - 1))) [0..<num]"

definition x_pred :: "real list" where
  "x_pred = linspace (- (1/10)) (8/10) 5000"

text \<open>
  NumPy's reductions of a one-dimensional slice. \<open>np.median\<close> is the middle element of
  the sorted slice, or the mean of the two middle ones. \<open>np.percentile(v, q)\<close> with the
  default linear interpolation reads the sorted slice at the fractional position
  \<open>q/100 * (n - 1)\<close>, weighting the two neighbouring elements. On an empty slice there is
  no number to return (NumPy gives NaN with a warning, or raises, depending on its
  version): that outcome is \<open>None\<close>.
\<close>

definition median :: "real list \<Rightarrow> real option" where
  "median v =
     (if v = [] then None
      else let s = sort v; n = length v
           in if odd n then Some (s ! (n div 2))
              else Some ((s ! (n div 2 - 1) + s ! (n div 2)) / 2))"

definition percentile :: "real list \<Rightarrow> real \<Rightarrow> real option" where
  "percentile v q =
     (if v = [] then None
      else let s = sort v; n = length v;
               indices = q / 100 * real (n - 1);
               indices_below = nat \<lfloor>indices\<rfloor>;
               indices_above = min (indices_below + 1) (n - 1);
               weights_above = indices - real indices_below;
               weights_below = 1 - weights_above
           in Some (s ! indices_below * weights_below + s ! indices_above * weights_above))"

text \<open>A reduction along \<open>axis=0\<close> of a matrix with \<open>ncols\<close> columns, given as its list of
  rows: one result per column.\<close>

definition reduce_axis0 :: "(real list \<Rightarrow> 'b) \<Rightarrow> nat \<Rightarrow> real list list \<Rightarrow> 'b list" where
  "reduce_axis0 f ncols m = map (\<lambda>j. f (map (\<lambda>row. row ! j) m)) [0..<ncols]"

text \<open>
  The broadcast expressions of the last cell. \<open>a[:, None] * x[None, :] + b[:, None]\<close> has one
  row per draw and one column per grid point; \<open>lines - np.exp(s)[:, None]\<close> shifts each row
  by that draw's scatter.
  \<^verbatim>\<open>
  lines = trace["A"][:, None] * x_pred[None, :] + trace["B"][:, None]
  mu_pred = np.median(lines, axis=0)
  mn = lines - np.exp(trace["logS"])[:, None]
  mn_pred = np.percentile(mn, 16, axis=0)
  mx = lines + np.exp(trace["logS"])[:, None]
  mx_pred = np.percentile(mx, 84, axis=0)
  \<close>
\<close>

definition lines_of :: "real list \<Rightarrow> real list \<Rightarrow> real list \<Rightarrow> real list list" where
  "lines_of a xs b = map2 (\<lambda>ai bi. map (\<lambda>x. ai * x + bi) xs) a b"

definition rows_minus :: "real list list \<Rightarrow> real list \<Rightarrow> real list list" where
  "rows_minus m c = map2 (\<lambda>row ci. map (\<lambda>v. v - ci) row) m c"

definition rows_plus :: "real list list \<Rightarrow> real list \<Rightarrow> real list list" where
  "rows_plus m c = map2 (\<lambda>row ci. map (\<lambda>v. v + ci) row) m c"

record band =
  mu_pred :: "real option list"
  mn_pred :: "real option list"
  mx_pred :: "real option list"

definition predictive_band :: "multitrace \<Rightarrow> real list \<Rightarrow> py_error + band" where
  "predictive_band trace xs =
     (case trace_get trace ''A'' of Inl e \<Rightarrow> Inl e | Inr a \<Rightarrow>
      case trace_get trace ''B'' of Inl e \<Rightarrow> Inl e | Inr b \<Rightarrow>
      let lines = lines_of a xs b;
          mu = reduce_axis0 median (length xs) lines
      in case trace_get trace ''logS'' of Inl e \<Rightarrow> Inl e | Inr s \<Rightarrow>
         let mn = rows_minus lines (map exp s);
             mnp = reduce_axis0 (\<lambda>v. percentile v 16) (length xs) mn;
             mx = rows_plus lines (map exp s);
             mxp = reduce_axis0 (\<lambda>v. percentile v 84) (length xs) mx
         in Inr \<lparr>mu_pred = mu, mn_pred = mnp, mx_pred = mxp\<rparr>)"

text \<open>The same quantities for one grid point, in the words of the specification: the
  predicted line of every draw, and the lines shifted down and up by the draw's scatter.\<close>

definition line_at :: "multitrace \<Rightarrow> real \<Rightarrow> real list" where
  "line_at trace x = map (\<lambda>p. p ''A'' * x + p ''B'') (draws trace)"

definition lower_at :: "multitrace \<Rightarrow> real \<Rightarrow> real list" where
  "lower_at trace x = map (\<lambda>p. p ''A'' * x + p ''B'' - exp (p ''logS'')) (draws trace)"

definition upper_at :: "multitrace \<Rightarrow> real \<Rightarrow> real list" where
  "upper_at trace x = map (\<lambda>p. p ''A'' * x + p ''B'' + exp (p ''logS'')) (draws trace)"

text \<open>A two-draw trace of the three variables, used to exercise the band.\<close>

definition example_trace :: multitrace where
  "example_trace =
     \<lparr>varnames = [''A'', ''B'', ''logS''],
      draws = [(\<lambda>n. if n = ''A'' then 1 else if n = ''B'' then 2 else 0),
               (\<lambda>n. if n = ''A'' then 3 else if n = ''B'' then 1 else 0)]\<rparr>"

section \<open>The notebook's objects and the diagnostics cells\<close>

text \<open>
  The notebook binds names to objects; two names may denote the same object, and an
  object changed in place changes for every name. So the state is an environment from
  names to addresses and a store of objects, an address being an index into the store:
  a new object is appended, an object changed in place is overwritten at its address.
\<close>

datatype pyobj =
    FloatArray "float64 list"
  | RealArray "real list"
  | RealMatrix nat "real list list"
  | BandArray "real option list"
  | Trace multitrace
  | SampleFrame "(string \<times> real list) list"
  | Rendered string

record notebook =
  env :: "string \<rightharpoonup> nat"
  heap :: "pyobj list"

text \<open>Reading a variable: NameError when the name is unbound.\<close>

definition lookup :: "notebook \<Rightarrow> string \<Rightarrow> py_error + pyobj" where
  "lookup s name =
     (case env s name of
        None \<Rightarrow> Inl NameError
      | Some a \<Rightarrow> if a < length (heap s) then Inr (heap s ! a) else Inl NameError)"

fun lookup_all :: "notebook \<Rightarrow> string list \<Rightarrow> py_error + pyobj list" where
  "lookup_all s [] = Inr []"
| "lookup_all s (n # ns) =
     (case lookup s n of
        Inl e \<Rightarrow> Inl e
      | Inr v \<Rightarrow> (case lookup_all s ns of Inl e \<Rightarrow> Inl e | Inr vs \<Rightarrow> Inr (v # vs)))"

text \<open>Binding a name to a new object.\<close>

definition assign :: "string \<Rightarrow> pyobj \<Rightarrow> notebook \<Rightarrow> notebook" where
  "assign name v s = s\<lparr>env := (env s)(name \<mapsto> length (heap s)), heap := heap s @ [v]\<rparr>"

text \<open>Overwriting in place the object a name denotes; every name bound to the same
  address sees the new content.\<close>

definition update_obj :: "string \<Rightarrow> pyobj \<Rightarrow> notebook \<Rightarrow> notebook" where
  "update_obj name v s =
     (case env s name of None \<Rightarrow> s | Some a \<Rightarrow> s\<lparr>heap := (heap s)[a := v]\<rparr>)"

fun store_back :: "string list \<Rightarrow> pyobj list \<Rightarrow> notebook \<Rightarrow> notebook" where
  "store_back (n # ns) (v # vs) s = store_back ns vs (update_obj n v s)"
| "store_back ns vs s = s"

text \<open>
  A library routine is called on the objects of its arguments. It may raise; otherwise it
  returns a result and leaves each argument object with some content, the same as before
  or not: \<open>np.median(a, overwrite_input=True)\<close> reorders \<open>a\<close>, the default does not.
\<close>

type_synonym routine = "pyobj list \<Rightarrow> py_error + pyobj list \<times> pyobj"

text \<open>A statement \<open>name = f(args)\<close>, or the bare call \<open>f(args)\<close> whose result is dropped.
  The argument objects are left as the routine leaves them.\<close>

datatype stmt = Stmt "string option" routine "string list"

fun exec :: "stmt \<Rightarrow> notebook \<Rightarrow> py_error + notebook" where
  "exec (Stmt tgt f args) s =
     (case lookup_all s args of
        Inl e \<Rightarrow> Inl e
      | Inr vs \<Rightarrow>
          (case f vs of
             Inl e \<Rightarrow> Inl e
           | Inr (vs', res) \<Rightarrow>
               Inr (case tgt of
                      None \<Rightarrow> store_back args vs' s
                    | Some name \<Rightarrow> assign name res (store_back args vs' s))))"

text \<open>Running a cell: the statements in order, stopping at the first exception; the
  notebook keeps the state reached so far.\<close>

fun run :: "stmt list \<Rightarrow> notebook \<Rightarrow> notebook \<times> py_error option" where
  "run [] s = (s, None)"
| "run (c # cs) s = (case exec c s of Inl e \<Rightarrow> (s, Some e) | Inr s' \<Rightarrow> run cs s')"

subsection \<open>The library routines the cells call\<close>

text \<open>
  The routines belong to NumPy, PyMC3, corner and matplotlib; their effect on their
  arguments and the exceptions they raise are modelled from their documentation. An
  operator expression (\<open>a * x + b\<close>, \<open>np.exp(s)\<close>, an index with \<open>None\<close>) builds a new
  array from its operands.
\<close>

definition builds :: "(pyobj list \<Rightarrow> py_error + pyobj) \<Rightarrow> routine" where
  "builds e vs = (case e vs of Inl err \<Rightarrow> Inl err | Inr v \<Rightarrow> Inr (vs, v))"

text \<open>With \<open>overwrite_input=True\<close> NumPy may use the input's memory; the input is then left
  in an unspecified order, here each column sorted.\<close>

definition sort_columns :: "nat \<Rightarrow> real list list \<Rightarrow> real list list" where
  "sort_columns ncols m =
     map (\<lambda>i. map (\<lambda>j. sort (map (\<lambda>row. row ! j) m) ! i) [0..<ncols]) [0..<length m]"

text \<open>\<open>np.median(a, axis=0, overwrite_input=...)\<close>\<close>

definition np_median :: "bool \<Rightarrow> routine" where
  "np_median overwrite_input vs =
     (case vs of
        [RealMatrix ncols m] \<Rightarrow>
          Inr ([RealMatrix ncols (if overwrite_input then sort_columns ncols m else m)],
               BandArray (reduce_axis0 median ncols m))
      | _ \<Rightarrow> Inl TypeError)"

text \<open>\<open>np.percentile(a, q, axis=0, overwrite_input=...)\<close>\<close>

definition np_percentile :: "real \<Rightarrow> bool \<Rightarrow> routine" where
  "np_percentile q overwrite_input vs =
     (case vs of
        [RealMatrix ncols m] \<Rightarrow>
          Inr ([RealMatrix ncols (if overwrite_input then sort_columns ncols m else m)],
               BandArray (reduce_axis0 (\<lambda>v. percentile v q) ncols m))
      | _ \<Rightarrow> Inl TypeError)"

text \<open>\<open>pm.traceplot(trace, varnames=...)\<close> and \<open>pm.summary(trace, varnames=...)\<close> raise
  KeyError on a trace that lacks one of the names.\<close>

definition pm_report :: "string \<Rightarrow> string list \<Rightarrow> routine" where
  "pm_report fname names vs =
     (case vs of
        [Trace t] \<Rightarrow>
          if set names \<subseteq> set (varnames t) then Inr (vs, Rendered fname) else Inl KeyError
      | _ \<Rightarrow> Inl TypeError)"

text \<open>\<open>pm.trace_to_dataframe(trace, varnames=["A", "B", "logS"])\<close>\<close>

definition trace_to_dataframe :: "pyobj list \<Rightarrow> py_error + pyobj" where
  "trace_to_dataframe vs =
     (case vs of
        [Trace t] \<Rightarrow>
          (case trace_get t ''A'' of Inl e \<Rightarrow> Inl e | Inr a \<Rightarrow>
           case trace_get t ''B'' of Inl e \<Rightarrow> Inl e | Inr b \<Rightarrow>
           case trace_get t ''logS'' of Inl e \<Rightarrow> Inl e | Inr c \<Rightarrow>
             Inr (SampleFrame [(''A'', a), (''B'', b), (''logS'', c)]))
      | _ \<Rightarrow> Inl TypeError)"

text \<open>\<open>corner.corner(samples, ...)\<close> asserts that there are at least as many samples as
  dimensions, and raises ValueError for a column that never changes.\<close>

definition corner_corner :: routine where
  "corner_corner vs =
     (case vs of
        [SampleFrame cols] \<Rightarrow>
          if list_ex (\<lambda>(name, xs). length xs < length cols) cols \<or> cols = []
          then Inl AssertionError
          else if list_ex (\<lambda>(name, xs). Min (set xs) = Max (set xs)) cols then Inl ValueError
          else Inr (vs, Rendered ''corner.corner'')
      | _ \<Rightarrow> Inl TypeError)"

text \<open>\<open>plt.errorbar(x, y, xerr=..., yerr=...)\<close> raises ValueError when the arrays differ in
  length or an error bar is negative (its test is \<open>err < -err\<close>).\<close>

definition plt_errorbar :: routine where
  "plt_errorbar vs =
     (case vs of
        [FloatArray x, FloatArray y, FloatArray xerr, FloatArray yerr] \<Rightarrow>
          if length y \<noteq> length x \<or> length xerr \<noteq> length x \<or> length yerr \<noteq> length x
             \<or> list_ex (\<lambda>e. fl_less e (fl_neg e)) (xerr @ yerr)
          then Inl ValueError
          else Inr (vs, Rendered ''plt.errorbar'')
      | _ \<Rightarrow> Inl TypeError)"

text \<open>\<open>plt.fill_between(x, y1, y2)\<close> and \<open>plt.plot(x, y)\<close> raise ValueError when the arrays
  differ in length.\<close>

definition plt_fill_between :: routine where
  "plt_fill_between vs =
     (case vs of
        [RealArray x, BandArray y1, BandArray y2] \<Rightarrow>
          if length y1 \<noteq> length x \<or> length y2 \<noteq> length x then Inl ValueError
          else Inr (vs, Rendered ''plt.fill_between'')
      | _ \<Rightarrow> Inl TypeError)"

definition plt_plot :: routine where
  "plt_plot vs =
     (case vs of
        [RealArray x, BandArray y] \<Rightarrow>
          if length y \<noteq> length x then Inl ValueError else Inr (vs, Rendered ''plt.plot'')
      | _ \<Rightarrow> Inl TypeError)"

text \<open>\<open>plt.legend\<close>, \<open>plt.xlabel\<close>, \<open>plt.ylabel\<close> with constant arguments.\<close>

definition plt_decorate :: "string \<Rightarrow> routine" where
  "plt_decorate fname vs = Inr (vs, Rendered fname)"

text \<open>\<open>plt.xlim(x_pred[0], x_pred[-1])\<close>: IndexError on an empty array.\<close>

definition plt_xlim :: routine where
  "plt_xlim vs =
     (case vs of
        [RealArray x] \<Rightarrow> if x = [] then Inl IndexError else Inr (vs, Rendered ''plt.xlim'')
      | _ \<Rightarrow> Inl TypeError)"

subsection \<open>The cells\<close>

text \<open>\<open>pm.traceplot(trace, varnames=["A", "B", "logS"])\<close>\<close>

definition cell_traceplot :: "stmt list" where
  "cell_traceplot = [Stmt None (pm_report ''pm.traceplot'' [''A'', ''B'', ''logS'']) [''trace'']]"

text \<open>\<open>pm.summary(trace, varnames=["A", "B", "logS"])\<close>\<close>

definition cell_summary :: "stmt list" where
  "cell_summary = [Stmt None (pm_report ''pm.summary'' [''A'', ''B'', ''logS'']) [''trace'']]"

text \<open>
  \<^verbatim>\<open>
  samples = pm.trace_to_dataframe(trace, varnames=["A", "B", "logS"])
  corner.corner(samples, truths=[1.3, np.log10(2.7), None]);
  \<close>
\<close>

definition cell_corner :: "stmt list" where
  "cell_corner =
     [Stmt (Some ''samples'') (builds trace_to_dataframe) [''trace''],
      Stmt None corner_corner [''samples'']]"

text \<open>The operator expressions of the last cell, over the objects of the variables
  they read.\<close>

definition lines_expr :: "pyobj list \<Rightarrow> py_error + pyobj" where
  "lines_expr vs =
     (case vs of
        [Trace t, RealArray xs] \<Rightarrow>
          (case trace_get t ''A'' of Inl e \<Rightarrow> Inl e | Inr a \<Rightarrow>
           case trace_get t ''B'' of Inl e \<Rightarrow> Inl e | Inr b \<Rightarrow>
             Inr (RealMatrix (length xs) (lines_of a xs b)))
      | _ \<Rightarrow> Inl TypeError)"

definition shift_expr ::
    "(real list list \<Rightarrow> real list \<Rightarrow> real list list) \<Rightarrow> pyobj list \<Rightarrow> py_error + pyobj" where
  "shift_expr shift vs =
     (case vs of
        [RealMatrix ncols m, Trace t] \<Rightarrow>
          (case trace_get t ''logS'' of Inl e \<Rightarrow> Inl e | Inr c \<Rightarrow>
             Inr (RealMatrix ncols (shift m (map exp c))))
      | _ \<Rightarrow> Inl TypeError)"

text \<open>
  \<^verbatim>\<open>
  plt.errorbar(log_radius, log_mass, xerr=log_radius_err, yerr=log_mass_err, ...)
  x_pred = np.linspace(-0.1, 0.8, 5000)
  lines = trace["A"][:, None] * x_pred[None, :] + trace["B"][:, None]
  mu_pred = np.median(lines, axis=0)
  mn = lines - np.exp(trace["logS"])[:, None]
  mn_pred = np.percentile(mn, 16, axis=0)
  mx = lines + np.exp(trace["logS"])[:, None]
  mx_pred = np.percentile(mx, 84, axis=0)
  plt.fill_between(x_pred, mn_pred, mx_pred, color="C0", alpha=0.5)
  plt.plot(x_pred, mu_pred, color="C0", label="predicted")
  plt.legend(fontsize=12); plt.xlabel(...); plt.ylabel(...)
  plt.xlim(x_pred[0], x_pred[-1]);
  \<close>
  \<open>np.median\<close> and \<open>np.percentile\<close> are called without \<open>overwrite_input\<close>, whose default
  is False.
\<close>

definition cell_predict :: "stmt list" where
  "cell_predict =
     [Stmt None plt_errorbar [''log_radius'', ''log_mass'', ''log_radius_err'', ''log_mass_err''],
      Stmt (Some ''x_pred'') (builds (\<lambda>vs. Inr (RealArray x_pred))) [],
      Stmt (Some ''lines'') (builds lines_expr) [''trace'', ''x_pred''],
      Stmt (Some ''mu_pred'') (np_median False) [''lines''],
      Stmt (Some ''mn'') (builds (shift_expr rows_minus)) [''lines'', ''trace''],
      Stmt (Some ''mn_pred'') (np_percentile 16 False) [''mn''],
      Stmt (Some ''mx'') (builds (shift_expr rows_plus)) [''lines'', ''trace''],
      Stmt (Some ''mx_pred'') (np_percentile 84 False) [''mx''],
      Stmt None plt_fill_between [''x_pred'', ''mn_pred'', ''mx_pred''],
      Stmt None plt_plot [''x_pred'', ''mu_pred''],
      Stmt None (plt_decorate ''plt.legend'') [],
      Stmt None (plt_decorate ''plt.xlabel'') [],
      Stmt None (plt_decorate ''plt.ylabel'') [],
      Stmt None plt_xlim [''x_pred'']]"

definition diagnostics :: "stmt list list" where
  "diagnostics = [cell_traceplot, cell_summary, cell_corner, cell_predict]"

text \<open>The variables holding the posterior samples and the observation arrays.\<close>

definition inputs :: "string list" where
  "inputs = [''trace'', ''log_radius'', ''log_radius_err'', ''log_mass'', ''log_mass_err'']"

text \<open>The name a statement binds, and the routine it calls.\<close>

fun target :: "stmt \<Rightarrow> string list" where
  "target (Stmt (Some name) f args) = [name]"
| "target (Stmt None f args) = []"

fun routine_of :: "stmt \<Rightarrow> routine" where
  "routine_of (Stmt tgt f args) = f"

text \<open>A routine that leaves every argument object with the content it had.\<close>

definition reads_only :: "routine \<Rightarrow> bool" where
  "reads_only f = (\<forall>vs vs' res. f vs = Inr (vs', res) \<longrightarrow> vs' = vs)"

text \<open>A notebook after the first cells and the sampler have run, on a one-row catalog.\<close>

definition example_notebook :: notebook where
  "example_notebook =
     \<lparr>env = [''log_radius'' \<mapsto> 0, ''log_radius_err'' \<mapsto> 1, ''log_mass'' \<mapsto> 2,
             ''log_mass_err'' \<mapsto> 3, ''trace'' \<mapsto> 4],
      heap = [FloatArray (log_radius [scenario_row]), FloatArray (log_radius_err [scenario_row]),
              FloatArray (log_mass [scenario_row]), FloatArray (log_mass_err [scenario_row]),
              Trace example_trace]\<rparr>"

text \<open>A notebook holding one two-row matrix, and the call
  \<open>np.median(lines, axis=0, overwrite_input=True)\<close> that the cells do not make.\<close>

definition matrix_notebook :: notebook where
  "matrix_notebook = \<lparr>env = [''lines'' \<mapsto> 0], heap = [RealMatrix 1 [[2], [1]]]\<rparr>"

definition overwriting_median :: "stmt list" where
  "overwriting_median = [Stmt (Some ''mu_pred'') (np_median True) [''lines'']]"

text \<open>Reading a sorted slice at a fractional position, the weights as in \<open>percentile\<close>.\<close>

definition interp :: "real list \<Rightarrow> real \<Rightarrow> real" where
  "interp s p = s ! nat \<lfloor>p\<rfloor> * (1 - (p - real (nat \<lfloor>p\<rfloor>)))
               + s ! min (nat \<lfloor>p\<rfloor> + 1) (length s - 1) * (p - real (nat \<lfloor>p\<rfloor>))"

section \<open>The data filter selects rows by the retention rule\<close>

lemma map2_same: "map2 f (map g xs) (map h xs) = map (\<lambda>x. f (g x) (h x)) xs"
  by (induction xs) simp_all

lemma selected_pointwise: "selected data = map selected_row data"
  by (simp add: selected_def selected_row_def columns_def col_def series_and_def
      series_add_def scalar_lt_series_def series_lt_scalar_def series_gt_scalar_def
      series_isfinite_def series_abs_def map2_same Let_def conj_ac)

lemma finite_nonzero: "(isfinite x \<and> fl_less (Fin 0) (fl_abs x)) = (\<exists>a. x = Fin a \<and> a \<noteq> 0)"
  by (cases x) auto

lemma selected_row_fields:
  assumes "selected_row row"
  obtains r ru rl m mu ml where
    "pl_rade row = Fin r" "pl_radeerr1 row = Fin ru" "pl_radeerr2 row = Fin rl"
    "pl_masse row = Fin m" "pl_masseerr1 row = Fin mu" "pl_masseerr2 row = Fin ml"
    "r \<noteq> 0" "ru \<noteq> 0" "rl \<noteq> 0" "m \<noteq> 0" "mu \<noteq> 0" "ml \<noteq> 0"
    "1 < r" "r < 4" "0 < m + ml" "0 < r + rl"
proof -
  from assms have "list_all (\<lambda>column. isfinite (column row) \<and> fl_less (Fin 0) (fl_abs (column row)))
      (columns :: ('a planet_row_scheme \<Rightarrow> float64) list)"
    by (simp add: selected_row_def)
  then obtain r ru rl m mu ml where f:
    "pl_rade row = Fin r" "pl_radeerr1 row = Fin ru" "pl_radeerr2 row = Fin rl"
    "pl_masse row = Fin m" "pl_masseerr1 row = Fin mu" "pl_masseerr2 row = Fin ml"
    "r \<noteq> 0" "ru \<noteq> 0" "rl \<noteq> 0" "m \<noteq> 0" "mu \<noteq> 0" "ml \<noteq> 0"
    by (auto simp: columns_def finite_nonzero)
  moreover from assms f have "1 < r" "r < 4" "0 < m + ml" "0 < r + rl"
    by (simp_all add: selected_row_def)
  ultimately show thesis by (rule that)
qed

lemma selected_row_spec: "selected_row row = retained_spec row"
proof (cases "list_all (\<lambda>column. isfinite (column row) \<and> fl_less (Fin 0) (fl_abs (column row)))
    (columns :: ('a planet_row_scheme \<Rightarrow> float64) list)")
  case True
  then obtain r ru rl m mu ml where
    "pl_rade row = Fin r" "pl_radeerr1 row = Fin ru" "pl_radeerr2 row = Fin rl"
    "pl_masse row = Fin m" "pl_masseerr1 row = Fin mu" "pl_masseerr2 row = Fin ml"
    "r \<noteq> 0" "ru \<noteq> 0" "rl \<noteq> 0" "m \<noteq> 0" "mu \<noteq> 0" "ml \<noteq> 0"
    by (auto simp: columns_def finite_nonzero)
  then show ?thesis
    by (simp add: selected_row_def retained_spec_def columns_def conj_ac)
next
  case False
  then have "\<not> selected_row row" by (simp add: selected_row_def)
  moreover from False have "\<not> retained_spec row"
    by (auto simp: columns_def finite_nonzero retained_spec_def split: option.splits
        elim!: real_of.elims)
  ultimately show ?thesis by simp
qed

lemma mask_index_map: "mask_index data (map P data) = filter P data"
  by (induction data) (simp_all add: mask_index_def)

lemma select_rows_selected_row: "select_rows data = filter selected_row data"
  by (simp add: select_rows_def selected_pointwise mask_index_map)

lemma select_rows_single: "select_rows [row] = (if selected_row row then [row] else [])"
  by (simp add: select_rows_selected_row)

lemma selected_scenario_row: "selected_row scenario_row"
  by (simp add: selected_row_def scenario_row_def columns_def)

lemma selected_negative_mass_row: "selected_row negative_mass_row"
  by (simp add: selected_row_def negative_mass_row_def columns_def)

lemma selected_negative_upper_row: "selected_row negative_upper_row"
  by (simp add: selected_row_def negative_upper_row_def columns_def)

text \<open>
  C1: a row appears in the filtered output if and only if it is a row of the input whose
  six fields are finite and nonzero, whose radius lies strictly between 1 and 4, and whose
  mass and radius plus their lower uncertainties are strictly positive.
\<close>

theorem filter_retains_iff:
  "row \<in> set (select_rows data) \<longleftrightarrow> row \<in> set data \<and> retained_spec row"
  by (simp add: select_rows_selected_row selected_row_spec conj_commute)

text \<open>
  C10: the filter is a pure selection. The output is the list of the input rows that
  satisfy the retention rule, in their original order and with every field (the record
  extension included) as it was; it is a subsequence of the input.
\<close>

theorem filter_is_pure_selection:
  "select_rows data = filter retained_spec data \<and> subseq (select_rows data) data"
proof -
  have "select_rows data = filter retained_spec data"
    by (simp add: select_rows_selected_row selected_row_spec[abs_def])
  then show ?thesis by simp
qed

section \<open>What the filter guarantees, and what it does not\<close>

text \<open>
  C4, as the code has it: a retained row has a strictly positive radius (between 1 and 4),
  six finite nonzero fields, and strictly positive sums of mass and of radius with their
  lower uncertainties. Its mass is strictly positive when the lower mass uncertainty is
  negative, and a row of mass -1 is retained only if its lower mass uncertainty exceeds 1.
\<close>

theorem retained_row_guarantees:
  assumes "row \<in> set (select_rows data)"
  shows "fl_less (Fin 0) (pl_rade row) \<and> fl_less (Fin 1) (pl_rade row)
       \<and> fl_less (pl_rade row) (Fin 4)
       \<and> list_all (\<lambda>column. isfinite (column row) \<and> fl_less (Fin 0) (fl_abs (column row)))
            columns
       \<and> fl_less (Fin 0) (fl_add (pl_masse row) (pl_masseerr2 row))
       \<and> fl_less (Fin 0) (fl_add (pl_rade row) (pl_radeerr2 row))
       \<and> (fl_less (pl_masseerr2 row) (Fin 0) \<longrightarrow> fl_less (Fin 0) (pl_masse row))
       \<and> (pl_masse row = Fin (- 1) \<longrightarrow> fl_less (Fin 1) (pl_masseerr2 row))"
proof -
  from assms have sel: "selected_row row" by (simp add: select_rows_selected_row)
  then obtain r ru rl m mu ml where
    "pl_rade row = Fin r" "pl_radeerr1 row = Fin ru" "pl_radeerr2 row = Fin rl"
    "pl_masse row = Fin m" "pl_masseerr1 row = Fin mu" "pl_masseerr2 row = Fin ml"
    "r \<noteq> 0" "ru \<noteq> 0" "rl \<noteq> 0" "m \<noteq> 0" "mu \<noteq> 0" "ml \<noteq> 0"
    "1 < r" "r < 4" "0 < m + ml" "0 < r + rl"
    by (rule selected_row_fields)
  then show ?thesis by (simp add: columns_def)
qed

theorem retained_row_guarantees_witness:
  "scenario_row \<in> set (select_rows [scenario_row])
   \<and> fl_less (pl_masseerr2 scenario_row) (Fin 0)
   \<and> fl_less (Fin 0) (pl_masse scenario_row)
   \<and> fl_less (Fin 0) (pl_rade scenario_row)
   \<and> negative_mass_row \<in> set (select_rows [negative_mass_row])
   \<and> pl_masse negative_mass_row = Fin (- 1)
   \<and> fl_less (Fin 1) (pl_masseerr2 negative_mass_row)"
proof -
  have a: "scenario_row \<in> set (select_rows [scenario_row])"
    by (simp add: select_rows_single selected_scenario_row)
  have b: "negative_mass_row \<in> set (select_rows [negative_mass_row])"
    by (simp add: select_rows_single selected_negative_mass_row)
  have c: "fl_less (pl_masseerr2 scenario_row) (Fin 0)" by (simp add: scenario_row_def)
  have d: "pl_masse negative_mass_row = Fin (- 1)" by (simp add: negative_mass_row_def)
  show ?thesis
    using a b c d retained_row_guarantees[OF a] retained_row_guarantees[OF b] by blast
qed

text \<open>
  C4 as stated fails: this row has mass -1 and is retained, because the filter tests the
  sum of the mass and its lower uncertainty and not the mass.
\<close>

theorem negative_mass_retained:
  "pl_masse negative_mass_row = Fin (- 1)
   \<and> negative_mass_row \<in> set (select_rows [negative_mass_row])
   \<and> \<not> fl_less (Fin 0) (pl_masse negative_mass_row)"
  by (simp add: select_rows_single selected_negative_mass_row) (simp add: negative_mass_row_def)

section \<open>The log-transform\<close>

lemma log_transform_nth:
  assumes "i < length d"
  shows "log_radius d ! i = fl_log10 (pl_rade (d ! i))"
    and "log_mass d ! i = fl_log10 (pl_masse (d ! i))"
    and "log_radius_err d ! i = fl_mul (Fin (1/2))
          (fl_sub (fl_log10 (fl_add (pl_rade (d ! i)) (pl_radeerr1 (d ! i))))
                  (fl_log10 (fl_add (pl_rade (d ! i)) (pl_radeerr2 (d ! i)))))"
    and "log_mass_err d ! i = fl_mul (Fin (1/2))
          (fl_sub (fl_log10 (fl_add (pl_masse (d ! i)) (pl_masseerr1 (d ! i))))
                  (fl_log10 (fl_add (pl_masse (d ! i)) (pl_masseerr2 (d ! i)))))"
  using assms
  by (simp_all add: log_radius_def log_mass_def log_radius_err_def log_mass_err_def
      series_log10_def series_add_def series_sub_def scalar_mul_series_def col_def map2_same)

lemma log_transform_length:
  "length (log_radius d) = length d" "length (log_mass d) = length d"
  "length (log_radius_err d) = length d" "length (log_mass_err d) = length d"
  by (simp_all add: log_radius_def log_mass_def log_radius_err_def log_mass_err_def
      series_log10_def series_add_def series_sub_def scalar_mul_series_def col_def)

text \<open>
  C3: for each retained row the transform gives the base-10 logarithm of the radius and
  of the mass, and as uncertainty half the difference of the logarithms of the value plus
  its upper and plus its lower uncertainty. For a row with radius 2.0 and uncertainties
  +0.2 and -0.2 the log-radius uncertainty is 0.5 * (log10 2.2 - log10 1.8).
\<close>

theorem log_transform_formula:
  assumes "d = select_rows raw" and "i < length d"
  shows "length (log_radius d) = length d \<and> length (log_mass d) = length d
       \<and> length (log_radius_err d) = length d \<and> length (log_mass_err d) = length d
       \<and> log_radius d ! i = fl_log10 (pl_rade (d ! i))
       \<and> log_mass d ! i = fl_log10 (pl_masse (d ! i))
       \<and> log_radius_err d ! i = fl_mul (Fin (1/2))
            (fl_sub (fl_log10 (fl_add (pl_rade (d ! i)) (pl_radeerr1 (d ! i))))
                    (fl_log10 (fl_add (pl_rade (d ! i)) (pl_radeerr2 (d ! i)))))
       \<and> log_mass_err d ! i = fl_mul (Fin (1/2))
            (fl_sub (fl_log10 (fl_add (pl_masse (d ! i)) (pl_masseerr1 (d ! i))))
                    (fl_log10 (fl_add (pl_masse (d ! i)) (pl_masseerr2 (d ! i)))))
       \<and> (pl_rade (d ! i) = Fin 2 \<and> pl_radeerr1 (d ! i) = Fin (2/10)
            \<and> pl_radeerr2 (d ! i) = Fin (- (2/10))
          \<longrightarrow> log_radius_err d ! i = Fin (1/2 * (log 10 (22/10) - log 10 (18/10))))"
  using log_transform_nth[OF assms(2)]
  by (simp add: log_transform_length fl_sub_def)

theorem log_transform_formula_witness:
  "(0::nat) < length (select_rows [scenario_row])
   \<and> pl_rade (select_rows [scenario_row] ! 0) = Fin 2
   \<and> pl_radeerr1 (select_rows [scenario_row] ! 0) = Fin (2/10)
   \<and> pl_radeerr2 (select_rows [scenario_row] ! 0) = Fin (- (2/10))
   \<and> log_radius_err (select_rows [scenario_row]) ! 0
       = Fin (1/2 * (log 10 (22/10) - log 10 (18/10)))"
proof -
  have d: "select_rows [scenario_row] = [scenario_row]"
    by (simp add: select_rows_single selected_scenario_row)
  have i: "(0::nat) < length (select_rows [scenario_row])" by (simp add: d)
  have f: "pl_rade (select_rows [scenario_row] ! 0) = Fin 2"
    "pl_radeerr1 (select_rows [scenario_row] ! 0) = Fin (2/10)"
    "pl_radeerr2 (select_rows [scenario_row] ! 0) = Fin (- (2/10))"
    unfolding d by (simp_all add: scenario_row_def)
  show ?thesis using i f log_transform_formula[OF refl i] by blast
qed

text \<open>
  C9: passing the filter does not make the arguments of \<open>log10\<close> positive. A retained row
  can have a mass plus upper uncertainty that is not positive, and then its log-mass
  uncertainty is NaN; a retained row can have a negative mass, and then its log-mass is
  NaN. NaN is not a finite value.
\<close>

theorem filter_admits_nonpositive_log10_argument:
  "(\<exists>row :: planet_row. select_rows [row] = [row]
       \<and> fl_less (fl_add (pl_masse row) (pl_masseerr1 row)) (Fin 0)
       \<and> log_mass_err (select_rows [row]) = [NaN])
   \<and> (\<exists>row :: planet_row. select_rows [row] = [row]
       \<and> fl_less (pl_masse row) (Fin 0)
       \<and> fl_less (Fin 0) (fl_add (pl_masse row) (pl_masseerr2 row))
       \<and> log_mass (select_rows [row]) = [NaN])
   \<and> isfinite NaN = False"
proof -
  have "select_rows [negative_upper_row] = [negative_upper_row]"
    by (simp add: select_rows_single selected_negative_upper_row)
  moreover have "fl_less (fl_add (pl_masse negative_upper_row) (pl_masseerr1 negative_upper_row))
      (Fin 0)"
    by (simp add: negative_upper_row_def)
  moreover have "log_mass_err [negative_upper_row] = [NaN]"
    by (simp add: log_mass_err_def negative_upper_row_def series_log10_def series_add_def
        series_sub_def scalar_mul_series_def col_def fl_sub_def)
  ultimately have a: "\<exists>row :: planet_row. select_rows [row] = [row]
       \<and> fl_less (fl_add (pl_masse row) (pl_masseerr1 row)) (Fin 0)
       \<and> log_mass_err (select_rows [row]) = [NaN]"
    by (intro exI[of _ negative_upper_row]) simp
  have "select_rows [negative_mass_row] = [negative_mass_row]"
    by (simp add: select_rows_single selected_negative_mass_row)
  moreover have "fl_less (pl_masse negative_mass_row) (Fin 0)"
    "fl_less (Fin 0) (fl_add (pl_masse negative_mass_row) (pl_masseerr2 negative_mass_row))"
    by (simp_all add: negative_mass_row_def)
  moreover have "log_mass [negative_mass_row] = [NaN]"
    by (simp add: log_mass_def negative_mass_row_def series_log10_def col_def)
  ultimately have b: "\<exists>row :: planet_row. select_rows [row] = [row]
       \<and> fl_less (pl_masse row) (Fin 0)
       \<and> fl_less (Fin 0) (fl_add (pl_masse row) (pl_masseerr2 row))
       \<and> log_mass (select_rows [row]) = [NaN]"
    by (intro exI[of _ negative_mass_row]) simp
  from a b show ?thesis by simp
qed

section \<open>The model block\<close>

text \<open>
  C2, as the code has it: the model block declares one free variable, \<open>A\<close>, with a
  Uniform(-5, 5) prior, and no observed variable; the priors of \<open>B\<close> and \<open>logS\<close> and the
  likelihood are left for the reader to write.
\<close>

theorem model_declares_only_A:
  "free_RVs model = [(''A'', Uniform (- 5) 5)] \<and> observed_RVs model = []"
  by (simp add: model_def pm_Uniform_def pm_Model_def)

text \<open>
  C2 as stated fails: the declared parameters are not \<open>A\<close>, \<open>B\<close> and \<open>logS\<close>, and there is
  no likelihood term.
\<close>

theorem model_lacks_B_logS_likelihood:
  "map fst (free_RVs model) \<noteq> [''A'', ''B'', ''logS'']
   \<and> ''B'' \<notin> set (map fst (free_RVs model))
   \<and> ''logS'' \<notin> set (map fst (free_RVs model))
   \<and> length (observed_RVs model) = 0"
  by (simp add: model_def pm_Uniform_def pm_Model_def)

section \<open>The posterior-predictive band\<close>

lemma lines_column:
  "j < length xs \<Longrightarrow>
   map (\<lambda>row. row ! j) (lines_of (map fa ds) xs (map fb ds))
     = map (\<lambda>p. fa p * xs ! j + fb p) ds"
  by (simp add: lines_of_def map2_same)

lemma lower_column:
  "j < length xs \<Longrightarrow>
   map (\<lambda>row. row ! j) (rows_minus (lines_of (map fa ds) xs (map fb ds)) (map (exp \<circ> fs) ds))
     = map (\<lambda>p. fa p * xs ! j + fb p - exp (fs p)) ds"
  by (simp add: lines_of_def rows_minus_def map2_same)

lemma upper_column:
  "j < length xs \<Longrightarrow>
   map (\<lambda>row. row ! j) (rows_plus (lines_of (map fa ds) xs (map fb ds)) (map (exp \<circ> fs) ds))
     = map (\<lambda>p. fa p * xs ! j + fb p + exp (fs p)) ds"
  by (simp add: lines_of_def rows_plus_def map2_same)

lemma reduce_axis0_nth: "j < ncols \<Longrightarrow> reduce_axis0 f ncols m ! j = f (map (\<lambda>row. row ! j) m)"
  by (simp add: reduce_axis0_def)

lemma predictive_band_defined:
  assumes "''A'' \<in> set (varnames trace)" "''B'' \<in> set (varnames trace)"
    "''logS'' \<in> set (varnames trace)"
  shows "predictive_band trace xs = Inr
     \<lparr>mu_pred = reduce_axis0 median (length xs)
         (lines_of (map (\<lambda>p. p ''A'') (draws trace)) xs (map (\<lambda>p. p ''B'') (draws trace))),
      mn_pred = reduce_axis0 (\<lambda>v. percentile v 16) (length xs)
         (rows_minus (lines_of (map (\<lambda>p. p ''A'') (draws trace)) xs (map (\<lambda>p. p ''B'') (draws trace)))
            (map exp (map (\<lambda>p. p ''logS'') (draws trace)))),
      mx_pred = reduce_axis0 (\<lambda>v. percentile v 84) (length xs)
         (rows_plus (lines_of (map (\<lambda>p. p ''A'') (draws trace)) xs (map (\<lambda>p. p ''B'') (draws trace)))
            (map exp (map (\<lambda>p. p ''logS'') (draws trace))))\<rparr>"
  using assms by (simp add: predictive_band_def trace_get_def Let_def)

lemma band_columns:
  assumes "''A'' \<in> set (varnames trace)" "''B'' \<in> set (varnames trace)"
    "''logS'' \<in> set (varnames trace)" "j < length xs"
  shows "\<exists>bd. predictive_band trace xs = Inr bd
      \<and> mu_pred bd ! j = median (line_at trace (xs ! j))
      \<and> mn_pred bd ! j = percentile (lower_at trace (xs ! j)) 16
      \<and> mx_pred bd ! j = percentile (upper_at trace (xs ! j)) 84
      \<and> length (mu_pred bd) = length xs \<and> length (mn_pred bd) = length xs
      \<and> length (mx_pred bd) = length xs"
  using assms(4)
  by (simp add: predictive_band_defined[OF assms(1-3)] reduce_axis0_nth lines_column
      lower_column upper_column line_at_def lower_at_def upper_at_def)
    (simp add: reduce_axis0_def)

text \<open>
  C5: on a trace that holds \<open>A\<close>, \<open>B\<close> and \<open>logS\<close> the band is defined and has one entry
  per grid point; at each grid point \<open>x\<close> the central prediction is the median over the
  draws of \<open>A * x + B\<close>, the lower edge is the 16th percentile of
  \<open>A * x + B - exp logS\<close>, and the upper edge is the 84th percentile of
  \<open>A * x + B + exp logS\<close>.
\<close>

theorem band_at:
  assumes "''A'' \<in> set (varnames trace)" "''B'' \<in> set (varnames trace)"
    "''logS'' \<in> set (varnames trace)" "j < length xs"
  shows "\<exists>bd. predictive_band trace xs = Inr bd
      \<and> mu_pred bd ! j = median (line_at trace (xs ! j))
      \<and> mn_pred bd ! j = percentile (lower_at trace (xs ! j)) 16
      \<and> mx_pred bd ! j = percentile (upper_at trace (xs ! j)) 84
      \<and> length (mu_pred bd) = length xs \<and> length (mn_pred bd) = length xs
      \<and> length (mx_pred bd) = length xs"
  using assms by (rule band_columns)

theorem band_at_witness:
  "''A'' \<in> set (varnames example_trace) \<and> ''B'' \<in> set (varnames example_trace)
   \<and> ''logS'' \<in> set (varnames example_trace) \<and> (0::nat) < length [1/2 :: real]
   \<and> (\<exists>bd. predictive_band example_trace [1/2] = Inr bd
      \<and> mu_pred bd ! 0 = median (line_at example_trace ([1/2] ! 0))
      \<and> mn_pred bd ! 0 = percentile (lower_at example_trace ([1/2] ! 0)) 16
      \<and> mx_pred bd ! 0 = percentile (upper_at example_trace ([1/2] ! 0)) 84
      \<and> length (mu_pred bd) = length [1/2 :: real]
      \<and> length (mn_pred bd) = length [1/2 :: real]
      \<and> length (mx_pred bd) = length [1/2 :: real])"
proof -
  have v: "''A'' \<in> set (varnames example_trace)" "''B'' \<in> set (varnames example_trace)"
    "''logS'' \<in> set (varnames example_trace)"
    by (simp_all add: example_trace_def)
  have j: "(0::nat) < length [1/2 :: real]" by simp
  show ?thesis using v j band_at[OF v j] by blast
qed

subsection \<open>Ordering of the band\<close>

lemma percentile_interp:
  "v \<noteq> [] \<Longrightarrow> percentile v q = Some (interp (sort v) (q / 100 * real (length v - 1)))"
  by (simp add: percentile_def interp_def Let_def)

lemma median_interp:
  assumes "v \<noteq> []"
  shows "median v = Some (interp (sort v) (real (length v - 1) / 2))"
proof (cases "odd (length v)")
  case True
  then obtain k where k: "length v = 2 * k + 1" by (auto elim: oddE)
  have "real (length v - 1) / 2 = real k" using k by simp
  moreover have "length v div 2 = k" using k by simp
  ultimately show ?thesis using assms True
    by (simp add: median_def interp_def Let_def)
next
  case False
  then obtain k where k: "length v = 2 * k" by (auto elim: evenE)
  with assms have k1: "1 \<le> k" by (cases k) auto
  let ?s = "sort v"
  have p: "real (length v - 1) / 2 = real (k - 1) + 1/2"
    using k k1 by (simp add: of_nat_diff field_simps)
  have "\<lfloor>real (k - 1) + 1/2\<rfloor> = int (k - 1)" by linarith
  then have fl: "nat \<lfloor>real (k - 1) + 1/2\<rfloor> = k - 1" by simp
  have m: "min (k - 1 + 1) (length ?s - 1) = k" using k k1 by simp
  have "interp ?s (real (k - 1) + 1/2) = ?s ! (k - 1) * (1 - 1/2) + ?s ! k * (1/2)"
    unfolding interp_def fl m by simp
  also have "\<dots> = (?s ! (k - 1) + ?s ! k) / 2" by (simp add: field_simps)
  finally have "interp ?s (real (length v - 1) / 2) = (?s ! (k - 1) + ?s ! k) / 2"
    unfolding p .
  moreover have "length v div 2 = k" using k by simp
  ultimately show ?thesis using assms False
    by (simp add: median_def Let_def)
qed

lemma interp_bounds:
  assumes "sorted s" "0 \<le> p" "p \<le> real (length s - 1)" "s \<noteq> []"
  shows "s ! nat \<lfloor>p\<rfloor> \<le> interp s p"
    and "interp s p \<le> s ! min (nat \<lfloor>p\<rfloor> + 1) (length s - 1)"
proof -
  let ?lo = "nat \<lfloor>p\<rfloor>" and ?hi = "min (nat \<lfloor>p\<rfloor> + 1) (length s - 1)"
  let ?t = "p - real ?lo"
  have lo: "?lo \<le> length s - 1" using assms(2,3) by linarith
  have t: "0 \<le> ?t" "?t \<le> 1" using assms(2) by linarith+
  have hi: "?hi < length s" using assms(4) by (cases s) auto
  have "?lo \<le> ?hi" using lo by simp
  then have le: "s ! ?lo \<le> s ! ?hi" using assms(1) hi by (simp add: sorted_nth_mono)
  have e1: "interp s p - s ! ?lo = (s ! ?hi - s ! ?lo) * ?t"
    by (simp add: interp_def algebra_simps)
  have e2: "s ! ?hi - interp s p = (s ! ?hi - s ! ?lo) * (1 - ?t)"
    by (simp add: interp_def algebra_simps)
  have "0 \<le> (s ! ?hi - s ! ?lo) * ?t" using le t by simp
  with e1 show "s ! ?lo \<le> interp s p" by linarith
  have "0 \<le> (s ! ?hi - s ! ?lo) * (1 - ?t)" using le t by simp
  with e2 show "interp s p \<le> s ! ?hi" by linarith
qed

lemma interp_mono_pos:
  assumes "sorted s" "0 \<le> p" "p \<le> p'" "p' \<le> real (length s - 1)" "s \<noteq> []"
  shows "interp s p \<le> interp s p'"
proof (cases "nat \<lfloor>p\<rfloor> = nat \<lfloor>p'\<rfloor>")
  case True
  let ?lo = "nat \<lfloor>p\<rfloor>" and ?hi = "min (nat \<lfloor>p\<rfloor> + 1) (length s - 1)"
  have lo: "?lo \<le> length s - 1" using assms(2,3,4) by linarith
  have hi: "?hi < length s" using assms(5) by (cases s) auto
  have "?lo \<le> ?hi" using lo by simp
  then have le: "s ! ?lo \<le> s ! ?hi" using assms(1) hi by (simp add: sorted_nth_mono)
  have "interp s p' - interp s p = (s ! ?hi - s ! ?lo) * (p' - p)"
    by (simp add: interp_def True[symmetric] algebra_simps)
  moreover have "0 \<le> (s ! ?hi - s ! ?lo) * (p' - p)" using le assms(3) by simp
  ultimately show ?thesis by linarith
next
  case False
  have "\<lfloor>p\<rfloor> \<le> \<lfloor>p'\<rfloor>" using assms(3) by (rule floor_mono)
  then have "nat \<lfloor>p\<rfloor> < nat \<lfloor>p'\<rfloor>" using False by linarith
  moreover have lo': "nat \<lfloor>p'\<rfloor> \<le> length s - 1" using assms(2,3,4) by linarith
  ultimately have "min (nat \<lfloor>p\<rfloor> + 1) (length s - 1) \<le> nat \<lfloor>p'\<rfloor>" by linarith
  moreover have "nat \<lfloor>p'\<rfloor> < length s" using lo' assms(5) by (cases s) auto
  ultimately have "s ! min (nat \<lfloor>p\<rfloor> + 1) (length s - 1) \<le> s ! nat \<lfloor>p'\<rfloor>"
    using assms(1) by (simp add: sorted_nth_mono)
  moreover have "interp s p \<le> s ! min (nat \<lfloor>p\<rfloor> + 1) (length s - 1)"
    using assms by (intro interp_bounds(2)) simp_all
  moreover have "s ! nat \<lfloor>p'\<rfloor> \<le> interp s p'"
    using assms by (intro interp_bounds(1)) simp_all
  ultimately show ?thesis by linarith
qed

lemma interp_mono_data:
  assumes "length s = length s'" "\<And>k. k < length s \<Longrightarrow> s ! k \<le> s' ! k"
    "0 \<le> p" "p \<le> real (length s - 1)" "s \<noteq> []"
  shows "interp s p \<le> interp s' p"
proof -
  let ?lo = "nat \<lfloor>p\<rfloor>" and ?hi = "min (nat \<lfloor>p\<rfloor> + 1) (length s - 1)"
  let ?t = "p - real ?lo"
  have lo: "?lo < length s" using assms(3,4,5) by (cases s) (auto, linarith)
  have hi: "?hi < length s" using assms(5) by (cases s) auto
  have t: "0 \<le> ?t" "0 \<le> 1 - ?t" using assms(3) by linarith+
  have "s ! ?lo * (1 - ?t) \<le> s' ! ?lo * (1 - ?t)"
    using assms(2)[OF lo] t(2) by (rule mult_right_mono)
  moreover have "s ! ?hi * ?t \<le> s' ! ?hi * ?t"
    using assms(2)[OF hi] t(1) by (rule mult_right_mono)
  ultimately show ?thesis by (simp add: interp_def assms(1)[symmetric])
qed

lemma count_le_sorted_lower:
  assumes "sorted s" "k < length s"
  shows "k + 1 \<le> length (filter (\<lambda>x. x \<le> s ! k) s)"
proof -
  have "\<forall>x \<in> set (take (k + 1) s). x \<le> s ! k"
  proof
    fix x assume "x \<in> set (take (k + 1) s)"
    then obtain i where "i < k + 1" "i < length s" "x = s ! i"
      by (auto simp: in_set_conv_nth)
    then show "x \<le> s ! k" using assms by (simp add: sorted_nth_mono)
  qed
  then have "filter (\<lambda>x. x \<le> s ! k) (take (k + 1) s) = take (k + 1) s" by simp
  moreover have "s = take (k + 1) s @ drop (k + 1) s" by simp
  ultimately have "length (filter (\<lambda>x. x \<le> s ! k) s)
      = length (take (k + 1) s) + length (filter (\<lambda>x. x \<le> s ! k) (drop (k + 1) s))"
    by (metis filter_append length_append)
  then show ?thesis using assms(2) by simp
qed

lemma count_le_sorted_upper:
  assumes "sorted s" "k < length s" "k + 1 \<le> length (filter (\<lambda>x. x \<le> v) s)"
  shows "s ! k \<le> (v::real)"
proof (rule ccontr)
  assume "\<not> s ! k \<le> v"
  then have gt: "v < s ! k" by simp
  have "\<forall>x \<in> set (drop k s). \<not> x \<le> v"
  proof
    fix x assume "x \<in> set (drop k s)"
    then obtain i where "i < length s - k" "x = s ! (k + i)"
      by (auto simp: in_set_conv_nth)
    then have "s ! k \<le> x" using assms(1) by (simp add: sorted_nth_mono)
    then show "\<not> x \<le> v" using gt by simp
  qed
  then have "filter (\<lambda>x. x \<le> v) (drop k s) = []" by simp
  moreover have "s = take k s @ drop k s" by simp
  ultimately have "filter (\<lambda>x. x \<le> v) s = filter (\<lambda>x. x \<le> v) (take k s)"
    by (metis filter_append append_Nil2)
  then have "length (filter (\<lambda>x. x \<le> v) s) \<le> k"
    by (metis length_filter_le length_take min.cobounded2 order_trans)
  then show False using assms(3) by simp
qed

lemma count_le_antimono:
  "\<forall>p \<in> set ds. f p \<le> g p \<Longrightarrow>
   length (filter (\<lambda>x. x \<le> (v::real)) (map g ds)) \<le> length (filter (\<lambda>x. x \<le> v) (map f ds))"
  by (induction ds) auto

lemma length_filter_sort: "length (filter P (sort xs)) = length (filter P xs)"
  by (simp add: filter_sort)

lemma order_statistic_mono:
  fixes f g :: "'a \<Rightarrow> real"
  assumes "\<forall>p \<in> set ds. f p \<le> g p" "k < length ds"
  shows "sort (map f ds) ! k \<le> sort (map g ds) ! k"
proof -
  let ?v = "sort (map g ds) ! k"
  have "k + 1 \<le> length (filter (\<lambda>x. x \<le> ?v) (sort (map g ds)))"
    using assms(2) by (intro count_le_sorted_lower) simp_all
  also have "\<dots> = length (filter (\<lambda>x. x \<le> ?v) (map g ds))" by (rule length_filter_sort)
  also have "\<dots> \<le> length (filter (\<lambda>x. x \<le> ?v) (map f ds))"
    using assms(1) by (rule count_le_antimono)
  also have "\<dots> = length (filter (\<lambda>x. x \<le> ?v) (sort (map f ds)))"
    by (rule length_filter_sort[symmetric])
  finally show ?thesis using assms(2) by (intro count_le_sorted_upper) simp_all
qed

lemma percentile_le_percentile:
  fixes f g :: "'a \<Rightarrow> real"
  assumes "\<forall>p \<in> set ds. f p \<le> g p" "ds \<noteq> []" "0 \<le> q" "q \<le> 100"
  shows "interp (sort (map f ds)) (q / 100 * real (length ds - 1))
       \<le> interp (sort (map g ds)) (q / 100 * real (length ds - 1))"
proof (rule interp_mono_data)
  show "length (sort (map f ds)) = length (sort (map g ds))" by simp
  show "sort (map f ds) ! k \<le> sort (map g ds) ! k" if "k < length (sort (map f ds))" for k
    using that assms(1) by (simp add: order_statistic_mono)
  show "0 \<le> q / 100 * real (length ds - 1)" using assms(3) by simp
  have "q / 100 * real (length ds - 1) \<le> 1 * real (length ds - 1)"
    using assms(4) by (intro mult_right_mono) simp_all
  then show "q / 100 * real (length ds - 1) \<le> real (length (sort (map f ds)) - 1)" by simp
  show "sort (map f ds) \<noteq> []" using assms(2) by (metis length_sort length_0_conv map_is_Nil_conv)
qed

lemma ordered_at_point:
  fixes fa fb fs :: "'a \<Rightarrow> real" and x :: real and ds :: "'a list"
  assumes "ds \<noteq> []"
  defines "mid \<equiv> map (\<lambda>p. fa p * x + fb p) ds"
    and "low \<equiv> map (\<lambda>p. fa p * x + fb p - exp (fs p)) ds"
    and "upp \<equiv> map (\<lambda>p. fa p * x + fb p + exp (fs p)) ds"
  shows "\<exists>l m u. percentile low 16 = Some l \<and> median mid = Some m \<and> percentile upp 84 = Some u
           \<and> l \<le> m \<and> m \<le> u"
proof -
  let ?n1 = "real (length ds - 1)"
  have ne: "mid \<noteq> []" "low \<noteq> []" "upp \<noteq> []" using assms(1) by (simp_all add: mid_def low_def upp_def)
  have len: "length mid = length ds" "length low = length ds" "length upp = length ds"
    by (simp_all add: mid_def low_def upp_def)
  have sne: "sort mid \<noteq> []" using ne(1) by (metis length_sort length_0_conv)
  have n1: "0 \<le> ?n1" by simp
  have P16: "percentile low 16 = Some (interp (sort low) (16 / 100 * ?n1))"
    using percentile_interp[OF ne(2), of 16] by (simp add: len)
  have P84: "percentile upp 84 = Some (interp (sort upp) (84 / 100 * ?n1))"
    using percentile_interp[OF ne(3), of 84] by (simp add: len)
  have M: "median mid = Some (interp (sort mid) (?n1 / 2))"
    using median_interp[OF ne(1)] by (simp add: len)
  have a: "interp (sort low) (16 / 100 * ?n1) \<le> interp (sort mid) (16 / 100 * ?n1)"
    unfolding low_def mid_def using assms(1)
    by (intro percentile_le_percentile) (simp_all add: less_imp_le)
  have b: "interp (sort mid) (16 / 100 * ?n1) \<le> interp (sort mid) (?n1 / 2)"
    using sne n1 by (intro interp_mono_pos) (simp_all add: len)
  have c: "interp (sort mid) (?n1 / 2) \<le> interp (sort mid) (84 / 100 * ?n1)"
    using sne n1 by (intro interp_mono_pos) (simp_all add: len)
  have d: "interp (sort mid) (84 / 100 * ?n1) \<le> interp (sort upp) (84 / 100 * ?n1)"
    unfolding upp_def mid_def using assms(1)
    by (intro percentile_le_percentile) (simp_all add: less_imp_le)
  show ?thesis using P16 P84 M a b c d by auto
qed

text \<open>
  C6: for a trace with at least one draw, at every grid point the three band values are
  numbers and the lower edge is at most the central prediction, which is at most the
  upper edge.
\<close>

theorem band_ordered:
  assumes "''A'' \<in> set (varnames trace)" "''B'' \<in> set (varnames trace)"
    "''logS'' \<in> set (varnames trace)" "draws trace \<noteq> []" "j < length xs"
  shows "\<exists>bd l m u. predictive_band trace xs = Inr bd
      \<and> mn_pred bd ! j = Some l \<and> mu_pred bd ! j = Some m \<and> mx_pred bd ! j = Some u
      \<and> l \<le> m \<and> m \<le> u"
proof -
  obtain l m u where "percentile (lower_at trace (xs ! j)) 16 = Some l"
    "median (line_at trace (xs ! j)) = Some m" "percentile (upper_at trace (xs ! j)) 84 = Some u"
    "l \<le> m" "m \<le> u"
    using ordered_at_point[OF assms(4), of "\<lambda>p. p ''A''" "xs ! j" "\<lambda>p. p ''B''" "\<lambda>p. p ''logS''"]
    unfolding lower_at_def line_at_def upper_at_def by blast
  then show ?thesis using band_columns[OF assms(1-3,5)] by auto
qed

theorem band_ordered_witness:
  "''A'' \<in> set (varnames example_trace) \<and> ''B'' \<in> set (varnames example_trace)
   \<and> ''logS'' \<in> set (varnames example_trace) \<and> draws example_trace \<noteq> []
   \<and> (0::nat) < length [1/2 :: real]
   \<and> (\<exists>bd l m u. predictive_band example_trace [1/2] = Inr bd
      \<and> mn_pred bd ! 0 = Some l \<and> mu_pred bd ! 0 = Some m \<and> mx_pred bd ! 0 = Some u
      \<and> l \<le> m \<and> m \<le> u)"
  using band_ordered[of example_trace 0 "[1/2]"] by (simp add: example_trace_def)



section \<open>Monotonicity of the log-transform\<close>




























section \<open>The diagnostics cells read and do not write\<close>

subsection \<open>Statements that call read-only routines only extend the store\<close>

lemma update_obj_same: "lookup s n = Inr v \<Longrightarrow> update_obj n v s = s"
  by (auto simp: lookup_def update_obj_def split: option.splits if_splits)

lemma store_back_same: "lookup_all s ns = Inr vs \<Longrightarrow> store_back ns vs s = s"
proof (induction ns arbitrary: vs)
  case Nil
  then show ?case by simp
next
  case (Cons n ns)
  then obtain v vs' where v: "lookup s n = Inr v" "lookup_all s ns = Inr vs'" "vs = v # vs'"
    by (auto split: sum.splits)
  then show ?case using Cons.IH[of vs'] by (simp add: update_obj_same)
qed

lemma exec_reads_only:
  assumes "reads_only f" "exec (Stmt tgt f args) s = Inr s'"
  shows "s' = (case tgt of None \<Rightarrow> s | Some name \<Rightarrow>
               assign name (snd (projr (f (projr (lookup_all s args))))) s)"
proof -
  from assms(2) obtain vs vs' res where
    a: "lookup_all s args = Inr vs" "f vs = Inr (vs', res)"
    by (auto split: sum.splits)
  with assms(1) have "vs' = vs" by (auto simp: reads_only_def)
  then show ?thesis using assms(2) a by (simp add: store_back_same split: option.splits)
qed

lemma exec_frame:
  assumes "reads_only (routine_of c)" "exec c s = Inr s'"
  shows "prefix (heap s) (heap s')" and "n \<notin> set (target c) \<Longrightarrow> env s' n = env s n"
proof -
  obtain tgt f args where c: "c = Stmt tgt f args" by (cases c)
  have s': "s' = (case tgt of None \<Rightarrow> s | Some name \<Rightarrow>
               assign name (snd (projr (f (projr (lookup_all s args))))) s)"
    using assms unfolding c by (intro exec_reads_only) simp_all
  show "prefix (heap s) (heap s')" by (simp add: s' assign_def split: option.splits)
  show "env s' n = env s n" if "n \<notin> set (target c)"
    using that by (cases tgt) (auto simp: s' c assign_def)
qed

lemma run_frame:
  assumes "\<forall>c \<in> set cs. reads_only (routine_of c)"
  shows "prefix (heap s) (heap (fst (run cs s)))
   \<and> (n \<notin> set (concat (map target cs)) \<longrightarrow> env (fst (run cs s)) n = env s n)"
  using assms
proof (induction cs arbitrary: s)
  case Nil
  show ?case by simp
next
  case (Cons c cs)
  show ?case
  proof (cases "exec c s")
    case (Inl e)
    then show ?thesis by simp
  next
    case (Inr s')
    have ro: "reads_only (routine_of c)" using Cons.prems by simp
    have IH: "prefix (heap s') (heap (fst (run cs s')))
      \<and> (n \<notin> set (concat (map target cs)) \<longrightarrow> env (fst (run cs s')) n = env s' n)"
      using Cons.prems by (intro Cons.IH) simp
    have "prefix (heap s) (heap s')" using ro Inr by (rule exec_frame(1))
    then have "prefix (heap s) (heap (fst (run cs s')))"
      using IH by (blast intro: prefix_order.trans)
    moreover have "env (fst (run cs s')) n = env s n"
      if "n \<notin> set (concat (map target (c # cs)))"
    proof -
      from that have "n \<notin> set (target c)" "n \<notin> set (concat (map target cs))" by simp_all
      then show ?thesis using IH exec_frame(2)[OF ro Inr] by simp
    qed
    ultimately show ?thesis using Inr by simp
  qed
qed

lemma lookup_frame:
  assumes "prefix (heap s) (heap s')" "env s' n = env s n" "lookup s n = Inr v"
  shows "lookup s' n = Inr v"
proof -
  from assms(3) obtain a where a: "env s n = Some a" "a < length (heap s)" "heap s ! a = v"
    by (auto simp: lookup_def split: option.splits if_splits)
  from assms(1) obtain zs where "heap s' = heap s @ zs" by (auto simp: prefix_def)
  then have "a < length (heap s')" "heap s' ! a = v" using a by (simp_all add: nth_append)
  then show ?thesis using a assms(2) by (simp add: lookup_def)
qed

lemma reads_only_builds: "reads_only (builds e)"
  by (auto simp: reads_only_def builds_def split: sum.splits)

lemma reads_only_np_median: "reads_only (np_median False)"
  by (auto simp: reads_only_def np_median_def split: list.splits pyobj.splits)

lemma reads_only_np_percentile: "reads_only (np_percentile q False)"
  by (auto simp: reads_only_def np_percentile_def split: list.splits pyobj.splits)

lemma reads_only_pm_report: "reads_only (pm_report fname names)"
  by (auto simp: reads_only_def pm_report_def split: list.splits pyobj.splits if_splits)

lemma reads_only_corner: "reads_only corner_corner"
  by (auto simp: reads_only_def corner_corner_def split: list.splits pyobj.splits if_splits)

lemma reads_only_errorbar: "reads_only plt_errorbar"
  by (auto simp: reads_only_def plt_errorbar_def split: list.splits pyobj.splits if_splits)

lemma reads_only_fill_between: "reads_only plt_fill_between"
  by (auto simp: reads_only_def plt_fill_between_def split: list.splits pyobj.splits if_splits)

lemma reads_only_plot: "reads_only plt_plot"
  by (auto simp: reads_only_def plt_plot_def split: list.splits pyobj.splits if_splits)

lemma reads_only_decorate: "reads_only (plt_decorate fname)"
  by (auto simp: reads_only_def plt_decorate_def)

lemma reads_only_xlim: "reads_only plt_xlim"
  by (auto simp: reads_only_def plt_xlim_def split: list.splits pyobj.splits if_splits)

lemmas reads_only_library = reads_only_builds reads_only_np_median reads_only_np_percentile
  reads_only_pm_report reads_only_corner reads_only_errorbar reads_only_fill_between
  reads_only_plot reads_only_decorate reads_only_xlim

lemma diagnostics_read_only:
  "c \<in> set diagnostics \<Longrightarrow> \<forall>st \<in> set c. reads_only (routine_of st)"
  by (auto simp: diagnostics_def cell_traceplot_def cell_summary_def cell_corner_def
      cell_predict_def reads_only_library)

lemma diagnostics_targets:
  "c \<in> set diagnostics \<Longrightarrow> n \<in> set inputs \<Longrightarrow> n \<notin> set (concat (map target c))"
  by (auto simp: diagnostics_def inputs_def cell_traceplot_def cell_summary_def cell_corner_def
      cell_predict_def)

lemma run_cell_keeps:
  assumes "\<forall>st \<in> set c. reads_only (routine_of st)"
    "n \<notin> set (concat (map target c))" "lookup s n = Inr v"
  shows "lookup (fst (run c s)) n = Inr v"
  using run_frame[OF assms(1), of s n] assms(2,3) by (auto intro: lookup_frame)

subsection \<open>A call that overwrites its input does change it\<close>

text \<open>The store semantics does express in-place change: had the last cell passed
  \<open>overwrite_input=True\<close>, the matrix \<open>lines\<close> would not be what it was.\<close>

lemma overwrite_not_reads_only: "\<not> reads_only (np_median True)"
proof
  assume "reads_only (np_median True)"
  moreover have "np_median True [RealMatrix 1 [[2], [1]]]
      = Inr ([RealMatrix 1 [[1], [2]]], BandArray [Some (3/2)])"
    by (simp add: np_median_def sort_columns_def reduce_axis0_def median_def)
  ultimately show False unfolding reads_only_def by fastforce
qed

lemma overwriting_median_changes_lines:
  "lookup matrix_notebook ''lines'' = Inr (RealMatrix 1 [[2], [1]])
   \<and> lookup (fst (run overwriting_median matrix_notebook)) ''lines''
        = Inr (RealMatrix 1 [[1], [2]])"
  by (simp add: overwriting_median_def matrix_notebook_def lookup_def np_median_def
      sort_columns_def reduce_axis0_def median_def update_obj_def assign_def)

subsection \<open>The last cell runs to its end, or stops at an exception\<close>

text \<open>With the three variables in the trace, observation arrays of one length and no
  negative error bar, the last cell runs to its end, and the arrays it binds are those of
  \<open>predictive_band\<close> on the grid \<open>x_pred\<close>.\<close>

lemma lookup_assign_same: "lookup (assign name v s) name = Inr v"
  by (simp add: lookup_def assign_def)

lemma lookup_assign_other:
  "n \<noteq> name \<Longrightarrow> lookup s n = Inr w \<Longrightarrow> lookup (assign name v s) n = Inr w"
  by (auto simp: lookup_def assign_def nth_append split: option.splits if_splits)

lemma length_x_pred: "length x_pred = 5000"
  by (simp add: x_pred_def linspace_def)

lemma cell_predict_completes:
  assumes t: "lookup s ''trace'' = Inr (Trace t)"
    and obs: "lookup s ''log_radius'' = Inr (FloatArray r)"
      "lookup s ''log_mass'' = Inr (FloatArray m)"
      "lookup s ''log_radius_err'' = Inr (FloatArray re)"
      "lookup s ''log_mass_err'' = Inr (FloatArray me)"
    and bars: "plt_errorbar [FloatArray r, FloatArray m, FloatArray re, FloatArray me]
        = Inr ([FloatArray r, FloatArray m, FloatArray re, FloatArray me], Rendered ''plt.errorbar'')"
    and bd: "predictive_band t x_pred = Inr bd"
  shows "snd (run cell_predict s) = None
    \<and> lookup (fst (run cell_predict s)) ''mu_pred'' = Inr (BandArray (mu_pred bd))
    \<and> lookup (fst (run cell_predict s)) ''mn_pred'' = Inr (BandArray (mn_pred bd))
    \<and> lookup (fst (run cell_predict s)) ''mx_pred'' = Inr (BandArray (mx_pred bd))"
proof -
  from bd obtain a b c where abc: "trace_get t ''A'' = Inr a" "trace_get t ''B'' = Inr b"
    "trace_get t ''logS'' = Inr c"
    by (auto simp: predictive_band_def Let_def split: sum.splits)
  with bd have bd': "bd = \<lparr>mu_pred = reduce_axis0 median (length x_pred) (lines_of a x_pred b),
      mn_pred = reduce_axis0 (\<lambda>v. percentile v 16) (length x_pred)
          (rows_minus (lines_of a x_pred b) (map exp c)),
      mx_pred = reduce_axis0 (\<lambda>v. percentile v 84) (length x_pred)
          (rows_plus (lines_of a x_pred b) (map exp c))\<rparr>"
    by (simp add: predictive_band_def Let_def)
  have ne: "x_pred \<noteq> []" using length_x_pred by auto
  show ?thesis
    using t obs abc bars ne
    by (simp add: cell_predict_def bd' lookup_assign_same lookup_assign_other update_obj_same
        builds_def lines_expr_def np_median_def np_percentile_def shift_expr_def
        plt_fill_between_def plt_plot_def plt_decorate_def plt_xlim_def reduce_axis0_def)
qed


lemma scenario_arrays:
  "log_radius [scenario_row] = [Fin (log 10 2)]"
  "log_mass [scenario_row] = [Fin (log 10 5)]"
  "log_radius_err [scenario_row] = [Fin (1/2 * (log 10 (22/10) - log 10 (18/10)))]"
  "log_mass_err [scenario_row] = [Fin (1/2 * (log 10 6 - log 10 4))]"
  by (simp_all add: log_radius_def log_mass_def log_radius_err_def log_mass_err_def
      scenario_row_def series_log10_def series_add_def series_sub_def scalar_mul_series_def
      col_def fl_sub_def)

lemma cell_predict_completes_example: "snd (run cell_predict example_notebook) = None"
proof -
  have v: "''A'' \<in> set (varnames example_trace)" "''B'' \<in> set (varnames example_trace)"
    "''logS'' \<in> set (varnames example_trace)"
    by (simp_all add: example_trace_def)
  have l: "lookup example_notebook ''trace'' = Inr (Trace example_trace)"
    "lookup example_notebook ''log_radius'' = Inr (FloatArray (log_radius [scenario_row]))"
    "lookup example_notebook ''log_mass'' = Inr (FloatArray (log_mass [scenario_row]))"
    "lookup example_notebook ''log_radius_err'' = Inr (FloatArray (log_radius_err [scenario_row]))"
    "lookup example_notebook ''log_mass_err'' = Inr (FloatArray (log_mass_err [scenario_row]))"
    by (simp_all add: lookup_def example_notebook_def)
  have "log 10 (18/10) \<le> log 10 (22/10 :: real)" "log 10 4 \<le> log 10 (6::real)" by simp_all
  then have e: "plt_errorbar [FloatArray (log_radius [scenario_row]),
      FloatArray (log_mass [scenario_row]), FloatArray (log_radius_err [scenario_row]),
      FloatArray (log_mass_err [scenario_row])]
    = Inr ([FloatArray (log_radius [scenario_row]),
      FloatArray (log_mass [scenario_row]), FloatArray (log_radius_err [scenario_row]),
      FloatArray (log_mass_err [scenario_row])], Rendered ''plt.errorbar'')"
    unfolding scenario_arrays by (simp add: plt_errorbar_def)
  show ?thesis
    using cell_predict_completes[OF l e predictive_band_defined[OF v, of x_pred]] by blast
qed

text \<open>A negative error bar stops \<open>plt.errorbar\<close>, and two draws are too few for the
  corner plot of three variables.\<close>

lemma plt_errorbar_negative:
  "plt_errorbar [FloatArray [Fin 0], FloatArray [Fin 0], FloatArray [Fin (- 1)], FloatArray [Fin 1]]
     = Inl ValueError"
  by (simp add: plt_errorbar_def)

lemma cell_corner_too_few_draws: "snd (run cell_corner example_notebook) = Some AssertionError"
  by (simp add: cell_corner_def example_notebook_def example_trace_def lookup_def builds_def
      trace_to_dataframe_def trace_get_def corner_corner_def update_obj_def assign_def)

subsection \<open>The frame property\<close>

text \<open>
  C8: computing the trace plot, the summary table, the corner plot and the predictive band
  leaves the posterior samples and the observation arrays unchanged. Whatever object one
  of the names \<open>trace\<close>, \<open>log_radius\<close>, \<open>log_radius_err\<close>, \<open>log_mass\<close>, \<open>log_mass_err\<close>
  denotes before a diagnostics cell runs, it denotes the same object with the same content
  afterwards, whether the cell completes or stops at an exception; no object that existed
  before is changed; and the same holds after the four cells in sequence. Every routine
  the cells call leaves its arguments as they were, and no cell binds one of the five
  names.
\<close>

theorem diagnostics_leave_inputs_unchanged:
  assumes "n \<in> set inputs" and "lookup s n = Inr v"
  shows "(\<forall>c \<in> set diagnostics. prefix (heap s) (heap (fst (run c s)))
            \<and> lookup (fst (run c s)) n = Inr v)
       \<and> lookup (fold (\<lambda>c s. fst (run c s)) diagnostics s) n = Inr v"
proof -
  have one: "lookup (fst (run c t)) n = Inr v" if "c \<in> set diagnostics" "lookup t n = Inr v" for c t
    using diagnostics_read_only[OF that(1)] diagnostics_targets[OF that(1) assms(1)] that(2)
    by (rule run_cell_keeps)
  have "lookup (fold (\<lambda>c s. fst (run c s)) cs t) n = Inr v"
    if "set cs \<subseteq> set diagnostics" "lookup t n = Inr v" for cs t
    using that by (induction cs arbitrary: t) (simp_all add: one)
  moreover have "prefix (heap s) (heap (fst (run c s)))" if "c \<in> set diagnostics" for c
    using run_frame[OF diagnostics_read_only[OF that], of s n] by blast
  ultimately show ?thesis using one assms(2) by blast
qed

theorem diagnostics_leave_inputs_unchanged_witness:
  "''trace'' \<in> set inputs \<and> lookup example_notebook ''trace'' = Inr (Trace example_trace)
   \<and> cell_predict \<in> set diagnostics
   \<and> prefix (heap example_notebook) (heap (fst (run cell_predict example_notebook)))
   \<and> lookup (fst (run cell_predict example_notebook)) ''trace'' = Inr (Trace example_trace)
   \<and> lookup (fold (\<lambda>c s. fst (run c s)) diagnostics example_notebook) ''trace''
        = Inr (Trace example_trace)"
proof -
  have a: "''trace'' \<in> set inputs" by (simp add: inputs_def)
  have b: "lookup example_notebook ''trace'' = Inr (Trace example_trace)"
    by (simp add: lookup_def example_notebook_def)
  have c: "cell_predict \<in> set diagnostics" by (simp add: diagnostics_def)
  show ?thesis using a b c diagnostics_leave_inputs_unchanged[OF a b] by blast
qed

end
